theory Spec2Isabelle
  imports Complex_Main
begin

text \<open>
  The student dashboard \<^verbatim>\<open>main.py\<close>: the score normalizer, the help classification,
  the cohort statistics and means, and the grade-point trend chart with its one-step
  projection, as functions on the data they compute; rendering is left out.
\<close>

section \<open>Values of the student dashboard\<close>

text \<open>
  A cell of the loaded spreadsheet, as \<^verbatim>\<open>main.py\<close> meets it: \<^verbatim>\<open>None\<close>, a NaN, a
  Python \<^verbatim>\<open>int\<close>, a finite \<^verbatim>\<open>float\<close> or a text. An \<^verbatim>\<open>int\<close> is exact and unbounded. A
  \<^verbatim>\<open>float\<close> is read as the real it stands for. The conversion of an \<^verbatim>\<open>int\<close> to a
  float rounds, and every exception of the arithmetic is modelled; the rounding of an
  operation on floats, the sign of zero and the overflow of such an operation to
  infinity (none of which raises) are not, so what is proved about the value of a
  result is stated where Python computes the differences exactly. Python compares a NaN unequal
  to everything, itself included, but finds an object in a list by identity first, so
  the one object \<^verbatim>\<open>np.nan\<close> is kept apart from any other NaN object (a
  \<^verbatim>\<open>float('nan')\<close>, a NaN boxed from a float column).
\<close>

datatype pyval = PNone | NpNaN | FloatNaN | PInt int | PNum real | PStr string

datatype py_error = TypeError | ZeroDivisionError | KeyError | OverflowError

text \<open>\<^verbatim>\<open>pd.isna\<close> / \<^verbatim>\<open>pd.notna\<close> on a scalar.\<close>

fun isna :: "pyval \<Rightarrow> bool" where
  "isna PNone = True"
| "isna NpNaN = True"
| "isna FloatNaN = True"
| "isna (PInt i) = False"
| "isna (PNum r) = False"
| "isna (PStr s) = False"

definition notna :: "pyval \<Rightarrow> bool" where
  "notna v = (\<not> isna v)"

subsection \<open>Arithmetic of the normalizer\<close>

text \<open>
  The operand of a binary arithmetic operator: an \<^verbatim>\<open>int\<close>, a \<^verbatim>\<open>float\<close>, a NaN, or a
  value the operator rejects with \<^verbatim>\<open>TypeError\<close>.
\<close>

datatype number = IntV int | FloatV real | NaNV

fun as_number :: "pyval \<Rightarrow> py_error + number" where
  "as_number (PInt i) = Inr (IntV i)"
| "as_number (PNum r) = Inr (FloatV r)"
| "as_number NpNaN = Inr NaNV"
| "as_number FloatNaN = Inr NaNV"
| "as_number PNone = Inl TypeError"
| "as_number (PStr s) = Inl TypeError"

text \<open>
  An \<^verbatim>\<open>int\<close> that meets a \<^verbatim>\<open>float\<close> is converted first, and so is the quotient of two
  \<^verbatim>\<open>int\<close>; either raises \<^verbatim>\<open>OverflowError\<close> from the magnitude that rounds to \<open>2^1024\<close>
  on. A float is \<open>Some\<close> real, or \<open>None\<close> for NaN.
\<close>

definition float_limit :: real where
  "float_limit = 2 ^ 1024 - 2 ^ 970"

text \<open>
  The float of an \<^verbatim>\<open>int\<close> is the nearest number with 53 significant bits, the even
  one of two that are equally near: an \<^verbatim>\<open>int\<close> of at most 53 bits is kept, a longer
  one loses its low bits.
\<close>

fun bit_length :: "nat \<Rightarrow> nat" where
  "bit_length n = (if n = 0 then 0 else Suc (bit_length (n div 2)))"

declare bit_length.simps [simp del]

definition round_half_even :: "nat \<Rightarrow> nat \<Rightarrow> nat" where
  \<comment> \<open>\<open>m / 2^e\<close> to the nearest integer, ties to even\<close>
  "round_half_even m e =
     (let q = m div 2 ^ e; r = m mod 2 ^ e
      in if 2 ^ e < 2 * r \<or> (2 * r = 2 ^ e \<and> odd q) then q + 1 else q)"

definition int_to_float :: "int \<Rightarrow> real" where
  "int_to_float i =
     (let m = nat \<bar>i\<bar>; e = bit_length m - 53
      in real_of_int (sgn i) * real (round_half_even m e * 2 ^ e))"

fun to_float :: "number \<Rightarrow> py_error + real option" where
  "to_float (IntV i) =
     (if float_limit \<le> \<bar>real_of_int i\<bar> then Inl OverflowError else Inr (Some (int_to_float i)))"
| "to_float (FloatV r) = Inr (Some r)"
| "to_float NaNV = Inr None"

definition float_pair :: "number \<Rightarrow> number \<Rightarrow> py_error + real option \<times> real option" where
  "float_pair x y =
     (case to_float x of
        Inl e \<Rightarrow> Inl e
      | Inr p \<Rightarrow> (case to_float y of Inl e \<Rightarrow> Inl e | Inr q \<Rightarrow> Inr (p, q)))"

text \<open>\<^verbatim>\<open>a - b\<close>: exact on two \<^verbatim>\<open>int\<close>, a float difference otherwise.\<close>

definition py_sub :: "pyval \<Rightarrow> pyval \<Rightarrow> py_error + number" where
  "py_sub a b =
     (case as_number a of
        Inl e \<Rightarrow> Inl e
      | Inr x \<Rightarrow>
          (case as_number b of
             Inl e \<Rightarrow> Inl e
           | Inr y \<Rightarrow>
               (case (x, y) of
                  (IntV i, IntV j) \<Rightarrow> Inr (IntV (i - j))
                | _ \<Rightarrow>
                    (case float_pair x y of
                       Inl e \<Rightarrow> Inl e
                     | Inr (Some p, Some q) \<Rightarrow> Inr (FloatV (p - q))
                     | Inr _ \<Rightarrow> Inr NaNV))))"

text \<open>
  \<^verbatim>\<open>x / y\<close>: always a float. A zero divisor raises, whatever the dividend; the
  quotient of two \<^verbatim>\<open>int\<close> raises when it is too large for a float.
\<close>

definition py_truediv :: "number \<Rightarrow> number \<Rightarrow> py_error + real option" where
  "py_truediv x y =
     (case (x, y) of
        (IntV i, IntV j) \<Rightarrow>
          if j = 0 then Inl ZeroDivisionError
          else if float_limit \<le> \<bar>real_of_int i / real_of_int j\<bar> then Inl OverflowError
          else Inr (Some (real_of_int i / real_of_int j))
      | _ \<Rightarrow>
          (case float_pair x y of
             Inl e \<Rightarrow> Inl e
           | Inr (p, q) \<Rightarrow>
               if q = Some 0 then Inl ZeroDivisionError
               else (case (p, q) of
                       (Some a, Some b) \<Rightarrow> Inr (Some (a / b))
                     | _ \<Rightarrow> Inr None)))"

definition py_mul :: "real option \<Rightarrow> real \<Rightarrow> real option" where
  "py_mul x k = (case x of Some p \<Rightarrow> Some (p * k) | None \<Rightarrow> None)"

text \<open>
  \<^verbatim>\<open>min(c, x)\<close> keeps its first argument unless the second is smaller, and
  \<^verbatim>\<open>max(c, y)\<close> unless the second is larger; a comparison with NaN is false.
\<close>

definition py_min :: "real \<Rightarrow> real option \<Rightarrow> real" where
  "py_min c x = (case x of Some p \<Rightarrow> (if p < c then p else c) | None \<Rightarrow> c)"

definition py_max :: "real \<Rightarrow> real \<Rightarrow> real" where
  "py_max c y = (if y > c then y else c)"

subsection \<open>normalize\_value\<close>

text \<open>
  \<^verbatim>\<open>
  def normalize_value(value, min_val, max_val):
      if pd.isna(value):
          return 0
      return max(0, min(100, ((value - min_val) / (max_val - min_val)) * 100))
  \<close>
\<close>

definition normalize_value :: "pyval \<Rightarrow> pyval \<Rightarrow> pyval \<Rightarrow> py_error + real" where
  "normalize_value value min_val max_val =
     (if isna value then Inr 0
      else
        (case py_sub value min_val of
           Inl e \<Rightarrow> Inl e
         | Inr num \<Rightarrow>
             (case py_sub max_val min_val of
                Inl e \<Rightarrow> Inl e
              | Inr den \<Rightarrow>
                  (case py_truediv num den of
                     Inl e \<Rightarrow> Inl e
                   | Inr q \<Rightarrow> Inr (py_max 0 (py_min 100 (py_mul q 100)))))))"





section \<open>Records and the cohort\<close>

text \<open>
  Field names and labels of the source are Chinese text; a \<^typ>\<open>string\<close> holds their
  UTF-8 bytes, on which equality is equality of the texts.
\<close>

definition wu :: string where
  \<comment> \<open>the literal of "none": U+65E0\<close>
  "wu =
     [CHR 0xE6, CHR 0x97, CHR 0xA0]"

definition key_help :: string where
  \<comment> \<open>the field asking whether the student has a difficulty the college should help with\<close>
  "key_help =
     [CHR 0xE6, CHR 0x9C, CHR 0x89, CHR 0xE6, CHR 0x97, CHR 0xA0, CHR 0xE9, CHR 0x9C,
      CHR 0x80, CHR 0xE8, CHR 0xA6, CHR 0x81, CHR 0xE5, CHR 0xAD, CHR 0xA6, CHR 0xE9,
      CHR 0x99, CHR 0xA2, CHR 0xE5, CHR 0x8D, CHR 0x8F, CHR 0xE5, CHR 0x8A, CHR 0xA9,
      CHR 0xE8, CHR 0xA7, CHR 0xA3, CHR 0xE5, CHR 0x86, CHR 0xB3, CHR 0xE7, CHR 0x9A,
      CHR 0x84, CHR 0xE5, CHR 0x9B, CHR 0xB0, CHR 0xE9, CHR 0x9A, CHR 0xBE]"

definition key_renmin :: string where
  \<comment> \<open>the field of the people's scholarship\<close>
  "key_renmin =
     [CHR 0xE4, CHR 0xBA, CHR 0xBA, CHR 0xE6, CHR 0xB0, CHR 0x91, CHR 0xE5, CHR 0xA5,
      CHR 0x96, CHR 0xE5, CHR 0xAD, CHR 0xA6, CHR 0xE9, CHR 0x87, CHR 0x91]"

definition key_zhuxue :: string where
  \<comment> \<open>the field of the grant\<close>
  "key_zhuxue =
     [CHR 0xE5, CHR 0x8A, CHR 0xA9, CHR 0xE5, CHR 0xAD, CHR 0xA6, CHR 0xE9, CHR 0x87,
      CHR 0x91]"

definition key_name :: string where
  \<comment> \<open>the field of the name\<close>
  "key_name =
     [CHR 0xE5, CHR 0xA7, CHR 0x93, CHR 0xE5, CHR 0x90, CHR 0x8D]"

definition key_id :: string where
  \<comment> \<open>the field of the student number\<close>
  "key_id =
     [CHR 0xE5, CHR 0xAD, CHR 0xA6, CHR 0xE5, CHR 0x8F, CHR 0xB7]"

text \<open>
  A student record is a row of the sheet, a mapping from field names to cells;
  \<^verbatim>\<open>student_data.get(key, default)\<close> reads it.
\<close>

type_synonym student_record = "string \<rightharpoonup> pyval"

definition series_get :: "student_record \<Rightarrow> string \<Rightarrow> pyval \<Rightarrow> pyval" where
  "series_get student_data key dflt =
     (case student_data key of None \<Rightarrow> dflt | Some v \<Rightarrow> v)"

text \<open>
  Membership \<^verbatim>\<open>x in [e1, e2, ...]\<close> holds when \<^verbatim>\<open>x is e or x == e\<close> for an element.
  Equal numbers (an \<^verbatim>\<open>int\<close> equals the \<^verbatim>\<open>float\<close> of its value) and equal texts are found
  by \<^verbatim>\<open>==\<close>; \<^verbatim>\<open>None\<close> and the object
  \<^verbatim>\<open>np.nan\<close> are found by identity; a NaN that is another object is neither identical
  nor equal to anything.
\<close>

fun py_is_or_eq :: "pyval \<Rightarrow> pyval \<Rightarrow> bool" where
  "py_is_or_eq PNone PNone = True"
| "py_is_or_eq NpNaN NpNaN = True"
| "py_is_or_eq (PInt i) (PInt j) = (i = j)"
| "py_is_or_eq (PInt i) (PNum b) = (real_of_int i = b)"
| "py_is_or_eq (PNum a) (PInt j) = (a = real_of_int j)"
| "py_is_or_eq (PNum a) (PNum b) = (a = b)"
| "py_is_or_eq (PStr s) (PStr t) = (s = t)"
| "py_is_or_eq x e = False"

definition py_in :: "pyval \<Rightarrow> pyval list \<Rightarrow> bool" where
  "py_in x es = list_ex (py_is_or_eq x) es"

text \<open>
  \<^verbatim>\<open>
  def display_help_status(student_data):
      help_needed = (student_data.get('...') not in [None, '...', np.nan])
      if help_needed: <card "needs help"> else: <card "needs no special help">
  \<close>
  The card shown is the classification.
\<close>

definition help_needed :: "student_record \<Rightarrow> bool" where
  "help_needed student_data =
     (\<not> py_in (series_get student_data key_help PNone) [PNone, PStr wu, NpNaN])"

datatype status_card = HelpNeededCard | HelpNotNeededCard

definition display_help_status :: "student_record \<Rightarrow> status_card" where
  "display_help_status student_data =
     (if help_needed student_data then HelpNeededCard else HelpNotNeededCard)"

text \<open>
  The cohort is the loaded data frame: its number of rows and its columns by name, each
  column holding one cell per row. \<^verbatim>\<open>df[key]\<close> raises \<^verbatim>\<open>KeyError\<close> for a column the
  sheet does not have.
\<close>

record dataframe =
  df_len :: nat
  df_columns :: "(string \<times> pyval list) list"

definition df_getitem :: "dataframe \<Rightarrow> string \<Rightarrow> py_error + pyval list" where
  "df_getitem df key =
     (case map_of (df_columns df) key of None \<Rightarrow> Inl KeyError | Some col \<Rightarrow> Inr col)"

text \<open>\<^verbatim>\<open>series != '...'\<close>, cell by cell: false only for the very text.\<close>

fun ne_text :: "string \<Rightarrow> pyval \<Rightarrow> bool" where
  "ne_text t (PStr s) = (s \<noteq> t)"
| "ne_text t v = True"

text \<open>
  The cohort statistics of the overview tab:
  \<^verbatim>\<open>
  total_students = len(df)
  help_needed_count = len(df[df['...'].notna() & (df['...'] != '...')])
  award_count = len(df[df['...'].notna() | df['...'].notna()])
  \<close>
  None of the three lookups is guarded.
\<close>

definition help_needed_count :: "dataframe \<Rightarrow> py_error + nat" where
  "help_needed_count df =
     (case df_getitem df key_help of
        Inl e \<Rightarrow> Inl e
      | Inr col \<Rightarrow> Inr (length (filter (\<lambda>v. notna v \<and> ne_text wu v) col)))"

definition award_count :: "dataframe \<Rightarrow> py_error + nat" where
  "award_count df =
     (case df_getitem df key_renmin of
        Inl e \<Rightarrow> Inl e
      | Inr a \<Rightarrow>
          (case df_getitem df key_zhuxue of
             Inl e \<Rightarrow> Inl e
           | Inr b \<Rightarrow> Inr (length (filter (\<lambda>(x, y). notna x \<or> notna y) (zip a b)))))"

definition overview_statistics :: "dataframe \<Rightarrow> py_error + nat \<times> nat \<times> nat" where
  "overview_statistics df =
     (let total_students = df_len df in
      case help_needed_count df of
        Inl e \<Rightarrow> Inl e
      | Inr h \<Rightarrow>
          (case award_count df of
             Inl e \<Rightarrow> Inl e
           | Inr a \<Rightarrow> Inr (total_students, h, a)))"

section \<open>Texts read as numbers\<close>

text \<open>
  \<^verbatim>\<open>float(s)\<close> and \<^verbatim>\<open>pd.to_numeric(s, errors='coerce')\<close> read a text as a number or
  fail. Their grammars belong to Python and pandas, so the functions below take the
  reading as an argument \<open>string \<Rightarrow> real option\<close> (\<open>None\<close>: not a number), and the
  theorems hold for every reading. \<open>plain_decimal\<close> is one reading, used at concrete
  inputs: an optional sign, digits, and optionally a point followed by digits, on which
  it agrees with both; texts of other shapes it does not read.
\<close>

definition digit_of :: "char \<Rightarrow> nat option" where
  "digit_of c =
     (let k = (of_char c :: nat) in if 48 \<le> k \<and> k \<le> 57 then Some (k - 48) else None)"

fun digits_value :: "string \<Rightarrow> nat \<Rightarrow> nat option" where
  "digits_value [] acc = Some acc"
| "digits_value (c # cs) acc =
     (case digit_of c of None \<Rightarrow> None | Some d \<Rightarrow> digits_value cs (10 * acc + d))"

definition unsigned_decimal :: "string \<Rightarrow> real option" where
  "unsigned_decimal s =
     (let ip = takeWhile (\<lambda>c. c \<noteq> CHR ''.'') s;
          rest = dropWhile (\<lambda>c. c \<noteq> CHR ''.'') s
      in if ip = [] then None
         else (case digits_value ip 0 of
                 None \<Rightarrow> None
               | Some i \<Rightarrow>
                   (case rest of
                      [] \<Rightarrow> Some (real i)
                    | d # fp \<Rightarrow>
                        if fp = [] then None
                        else (case digits_value fp 0 of
                                None \<Rightarrow> None
                              | Some f \<Rightarrow> Some (real i + real f / 10 ^ length fp)))))"

definition plain_decimal :: "string \<Rightarrow> real option" where
  "plain_decimal s =
     (case s of
        [] \<Rightarrow> None
      | c # cs \<Rightarrow>
          if c = CHR ''-'' then map_option uminus (unsigned_decimal cs)
          else if c = CHR ''+'' then unsigned_decimal cs
          else unsigned_decimal s)"

text \<open>\<^verbatim>\<open>str(n)\<close> of a natural number, for the label of the projected period.\<close>

fun str_nat :: "nat \<Rightarrow> string" where
  "str_nat n =
     (if n < 10 then [''0123456789'' ! n]
      else str_nat (n div 10) @ [''0123456789'' ! (n mod 10)])"

declare str_nat.simps [simp del]

section \<open>Cohort means\<close>

definition key_deyu :: string where
  \<comment> \<open>moral education score\<close>
  "key_deyu =
     [CHR 0xE5, CHR 0xBE, CHR 0xB7, CHR 0xE8, CHR 0x82, CHR 0xB2]"

definition key_zhiyu :: string where
  \<comment> \<open>intellectual education score\<close>
  "key_zhiyu =
     [CHR 0xE6, CHR 0x99, CHR 0xBA, CHR 0xE8, CHR 0x82, CHR 0xB2]"

definition key_tice :: string where
  \<comment> \<open>physical test score\<close>
  "key_tice =
     [CHR 0xE4, CHR 0xBD, CHR 0x93, CHR 0xE6, CHR 0xB5, CHR 0x8B, CHR 0xE6, CHR 0x88,
      CHR 0x90, CHR 0xE7, CHR 0xBB, CHR 0xA9]"

definition key_fujia :: string where
  \<comment> \<open>bonus points\<close>
  "key_fujia =
     [CHR 0xE9, CHR 0x99, CHR 0x84, CHR 0xE5, CHR 0x8A, CHR 0xA0, CHR 0xE5, CHR 0x88,
      CHR 0x86]"

definition key_fujia_2324 :: string where
  \<comment> \<open>bonus points of the year 23-24\<close>
  "key_fujia_2324 =
     [CHR 0x32, CHR 0x33, CHR 0x2D, CHR 0x32, CHR 0x34, CHR 0xE9, CHR 0x99, CHR 0x84,
      CHR 0xE5, CHR 0x8A, CHR 0xA0, CHR 0xE5, CHR 0x88, CHR 0x86]"

definition key_total :: string where
  \<comment> \<open>total score of the assessment\<close>
  "key_total =
     [CHR 0xE6, CHR 0xB5, CHR 0x8B, CHR 0xE8, CHR 0xAF, CHR 0x84, CHR 0xE6, CHR 0x80,
      CHR 0xBB, CHR 0xE5, CHR 0x88, CHR 0x86]"

text \<open>
  \<^verbatim>\<open>pd.to_numeric(column, errors='coerce')\<close>: a number stays, a text is read or becomes
  NaN, a missing cell becomes NaN. The result is a float column, so its NaN are not the
  object \<^verbatim>\<open>np.nan\<close>.
\<close>

fun to_numeric :: "(string \<Rightarrow> real option) \<Rightarrow> pyval \<Rightarrow> pyval" where
  "to_numeric tn (PNum r) = PNum r"
| "to_numeric tn (PInt i) = PNum (real_of_int i)"
| "to_numeric tn (PStr s) = (case tn s of Some r \<Rightarrow> PNum r | None \<Rightarrow> FloatNaN)"
| "to_numeric tn v = FloatNaN"

text \<open>
  \<^verbatim>\<open>Series.mean()\<close> of a float column skips NaN: the sum of the numbers over their
  count, and NaN when there is none.
\<close>

fun nansum_count :: "pyval list \<Rightarrow> real \<times> nat" where
  "nansum_count [] = (0, 0)"
| "nansum_count (PNum r # vs) = (case nansum_count vs of (s, c) \<Rightarrow> (r + s, Suc c))"
| "nansum_count (v # vs) = nansum_count vs"

definition series_mean :: "pyval list \<Rightarrow> pyval" where
  "series_mean col =
     (case nansum_count col of (s, c) \<Rightarrow> if c = 0 then FloatNaN else PNum (s / real c))"

text \<open>
  The expression both charts use for a cohort mean,
  \<^verbatim>\<open>pd.to_numeric(df[key], errors='coerce').mean() if key in df else dflt\<close>;
  the guard \<^verbatim>\<open>key in df\<close> and the lookup \<^verbatim>\<open>df[key]\<close> are one case distinction here.
\<close>

definition numeric_mean ::
  "(string \<Rightarrow> real option) \<Rightarrow> dataframe \<Rightarrow> string \<Rightarrow> pyval \<Rightarrow> pyval" where
  "numeric_mean tn df key dflt =
     (case map_of (df_columns df) key of
        None \<Rightarrow> dflt
      | Some col \<Rightarrow> series_mean (map (to_numeric tn) col))"

text \<open>
  \<^verbatim>\<open>class_avg\<close> and \<^verbatim>\<open>normalized_class_avg\<close> of \<^verbatim>\<open>create_radar_chart\<close>, with the
  bounds of the five metrics.
\<close>

definition class_avg :: "(string \<Rightarrow> real option) \<Rightarrow> dataframe \<Rightarrow> pyval list" where
  "class_avg tn df =
     [numeric_mean tn df key_deyu (PNum 0),
      numeric_mean tn df key_zhiyu (PNum 0),
      numeric_mean tn df key_tice (PNum 0),
      numeric_mean tn df key_fujia (numeric_mean tn df key_fujia_2324 (PNum 0)),
      numeric_mean tn df key_total (PNum 0)]"

definition metric_bounds :: "(int \<times> int) list" where
  "metric_bounds = [(12, 15), (50, 100), (60, 120), (-1, 6), (50, 110)]"

definition normalized_class_avg ::
  "(string \<Rightarrow> real option) \<Rightarrow> dataframe \<Rightarrow> (py_error + real) list" where
  "normalized_class_avg tn df =
     map (\<lambda>(v, lo, hi). normalize_value v (PInt lo) (PInt hi)) (zip (class_avg tn df) metric_bounds)"

text \<open>
  The spec's words for the same mean: the entries that are numeric after coercion,
  and the arithmetic mean of those that remain.
\<close>

fun numeric_entry :: "(string \<Rightarrow> real option) \<Rightarrow> pyval \<Rightarrow> real option" where
  "numeric_entry tn (PNum r) = Some r"
| "numeric_entry tn (PInt i) = Some (real_of_int i)"
| "numeric_entry tn (PStr s) = tn s"
| "numeric_entry tn v = None"

definition remaining_values :: "(string \<Rightarrow> real option) \<Rightarrow> pyval list \<Rightarrow> real list" where
  "remaining_values tn col = List.map_filter (numeric_entry tn) col"

definition arithmetic_mean :: "real list \<Rightarrow> real" where
  "arithmetic_mean xs = sum_list xs / real (length xs)"

section \<open>The grade-point trend chart\<close>

definition sem_first :: string where
  \<comment> \<open>first semester\<close>
  "sem_first =
     [CHR 0xE7, CHR 0xAC, CHR 0xAC, CHR 0xE4, CHR 0xB8, CHR 0x80, CHR 0xE5, CHR 0xAD,
      CHR 0xA6, CHR 0xE6, CHR 0x9C, CHR 0x9F]"

definition sem_second :: string where
  \<comment> \<open>second semester\<close>
  "sem_second =
     [CHR 0xE7, CHR 0xAC, CHR 0xAC, CHR 0xE4, CHR 0xBA, CHR 0x8C, CHR 0xE5, CHR 0xAD,
      CHR 0xA6, CHR 0xE6, CHR 0x9C, CHR 0x9F]"

definition sem_third :: string where
  \<comment> \<open>third semester\<close>
  "sem_third =
     [CHR 0xE7, CHR 0xAC, CHR 0xAC, CHR 0xE4, CHR 0xB8, CHR 0x89, CHR 0xE5, CHR 0xAD,
      CHR 0xA6, CHR 0xE6, CHR 0x9C, CHR 0x9F]"

definition gpa_suffix :: string where
  \<comment> \<open>grade point: a field is a semester followed by this\<close>
  "gpa_suffix =
     [CHR 0xE7, CHR 0xBB, CHR 0xA9, CHR 0xE7, CHR 0x82, CHR 0xB9]"

definition label_prefix :: string where
  \<comment> \<open>the ordinal prefix of the projected label\<close>
  "label_prefix =
     [CHR 0xE7, CHR 0xAC, CHR 0xAC]"

definition label_suffix :: string where
  \<comment> \<open>semester (forecast)\<close>
  "label_suffix =
     [CHR 0xE5, CHR 0xAD, CHR 0xA6, CHR 0xE6, CHR 0x9C, CHR 0x9F, CHR 0x28, CHR 0xE9,
      CHR 0xA2, CHR 0x84, CHR 0xE6, CHR 0xB5, CHR 0x8B, CHR 0x29]"

text \<open>
  A collected grade point is a float or an \<^verbatim>\<open>int\<close>: a number, an infinity (\<open>True\<close> for
  the positive one) or NaN. \<^verbatim>\<open>float(s)\<close> of a text gives any of these, or raises.
\<close>

datatype pyfloat = Fin real | Infinite bool | NaNf

text \<open>
  The conversion inside the \<^verbatim>\<open>try\<close>,
  \<^verbatim>\<open>float(x) if not isinstance(x, (int, float)) else x\<close>, with \<open>None\<close> for the
  \<^verbatim>\<open>ValueError\<close> or \<^verbatim>\<open>TypeError\<close> the \<^verbatim>\<open>except\<close> swallows. It is reached for present
  values only, so a missing cell never gets here. The reading \<open>fl\<close> of a text is
  Python's \<^verbatim>\<open>float\<close>.
\<close>

fun gpa_value :: "(string \<Rightarrow> pyfloat option) \<Rightarrow> pyval \<Rightarrow> pyfloat option" where
  "gpa_value fl (PNum r) = Some (Fin r)"
| "gpa_value fl (PInt i) = Some (Fin (real_of_int i))"
| "gpa_value fl (PStr s) = fl s"
| "gpa_value fl v = None"

text \<open>
  The objects \<^verbatim>\<open>create_gpa_chart\<close> works on: the two arguments, which the caller keeps
  a reference to, the two local lists, and the traces of the figure it returns (the
  student's own line, the class average, the trend line and the predicted point).
  Each statement is a function from state to state, so that what a statement leaves
  alone can be said. Layout and the debug output written on the way are left out.
\<close>

record chart_state =
  arg_student_data :: student_record
  arg_df :: "dataframe option"
  var_semesters :: "string list"
  var_gpas :: "pyfloat list"
  personal_trace :: "(string list \<times> pyfloat list) option"
  class_trace :: "(string list \<times> pyval list) option"
  trend_trace :: "(string list \<times> pyfloat list) option"
  predicted_trace :: "(string \<times> pyfloat) option"

definition init_state :: "student_record \<Rightarrow> dataframe option \<Rightarrow> chart_state" where
  "init_state student_data df =
     \<lparr>arg_student_data = student_data, arg_df = df, var_semesters = [], var_gpas = [],
      personal_trace = None, class_trace = None, trend_trace = None, predicted_trace = None\<rparr>"

text \<open>
  One round of the collecting loop:
  \<^verbatim>\<open>
  gpa_key = f'{sem_num}...'
  if gpa_key in student_data and pd.notna(student_data[gpa_key]):
      semesters.append(sem_num)
      try:
          gpa_value = float(...) if not isinstance(..., (int, float)) else ...
          gpas.append(gpa_value)
      except (ValueError, TypeError) as e:
          st.write(...)
  \<close>
  The label is appended before the conversion is tried.
\<close>

definition collect_step ::
  "(string \<Rightarrow> pyfloat option) \<Rightarrow> chart_state \<Rightarrow> string \<Rightarrow> chart_state" where
  "collect_step fl st sem_num =
     (case arg_student_data st (sem_num @ gpa_suffix) of
        None \<Rightarrow> st
      | Some x \<Rightarrow>
          if notna x then
            (case gpa_value fl x of
               Some g \<Rightarrow> st\<lparr>var_semesters := var_semesters st @ [sem_num],
                              var_gpas := var_gpas st @ [g]\<rparr>
             | None \<Rightarrow> st\<lparr>var_semesters := var_semesters st @ [sem_num]\<rparr>)
          else st)"

definition collect_gpas :: "(string \<Rightarrow> pyfloat option) \<Rightarrow> chart_state \<Rightarrow> chart_state" where
  "collect_gpas fl st = foldl (collect_step fl) st [sem_first, sem_second, sem_third]"

text \<open>
  The fallback to the example series:
  \<^verbatim>\<open>
  if not semesters or len(semesters) < 2:
      semesters = [<first>, <second>, <third>]
      gpas = [3.2, 3.5, 3.1]
  \<close>
\<close>

definition example_gpas :: "pyfloat list" where
  "example_gpas = [Fin (32 / 10), Fin (35 / 10), Fin (31 / 10)]"

definition with_example_data :: "chart_state \<Rightarrow> chart_state" where
  "with_example_data st =
     (if var_semesters st = [] \<or> length (var_semesters st) < 2
      then st\<lparr>var_semesters := [sem_first, sem_second, sem_third], var_gpas := example_gpas\<rparr>
      else st)"

text \<open>The student's own line, \<^verbatim>\<open>x=semesters, y=gpas\<close>.\<close>

definition add_personal_trace :: "chart_state \<Rightarrow> chart_state" where
  "add_personal_trace st = st\<lparr>personal_trace := Some (var_semesters st, var_gpas st)\<rparr>"

text \<open>
  The class averages, one per collected semester, 3.0 where the cohort has no such
  column.
\<close>

definition class_avg_gpas ::
  "(string \<Rightarrow> real option) \<Rightarrow> dataframe \<Rightarrow> string list \<Rightarrow> pyval list" where
  "class_avg_gpas tn df semesters =
     map (\<lambda>sem_num. numeric_mean tn df (sem_num @ gpa_suffix) (PNum 3)) semesters"

definition add_class_trace :: "(string \<Rightarrow> real option) \<Rightarrow> chart_state \<Rightarrow> chart_state" where
  "add_class_trace tn st =
     (case arg_df st of
        None \<Rightarrow> st
      | Some d \<Rightarrow>
          st\<lparr>class_trace := Some (var_semesters st, class_avg_gpas tn d (var_semesters st))\<rparr>)"

subsection \<open>The linear fit\<close>

text \<open>
  \<^verbatim>\<open>np.arange(n)\<close>, \<^verbatim>\<open>np.polyfit(x, y, 1)\<close> and \<^verbatim>\<open>np.polyval\<close> belong to numpy.
  \<open>polyfit\<close> is the least-squares line through numbers, given by the solution of the
  normal equations as the pair (slope, intercept), highest power first as numpy returns
  it; \<open>polyfit_least_squares\<close> below proves that this pair minimises the sum of the
  squared residuals. Numbers are exact here; numpy computes the same line in floats.
\<close>

definition arange :: "nat \<Rightarrow> real list" where
  "arange n = map real [0..<n]"

definition polyfit :: "real list \<Rightarrow> real list \<Rightarrow> real \<times> real" where
  "polyfit xs ys =
     (let n = real (length xs);
          sx = sum_list xs;
          sy = sum_list ys;
          sxx = sum_list (map (\<lambda>x. x * x) xs);
          sxy = sum_list (map (\<lambda>(x, y). x * y) (zip xs ys));
          slope = (n * sxy - sx * sy) / (n * sxx - sx * sx);
          intercept = (sy - slope * sx) / n
      in (slope, intercept))"

definition polyval :: "real \<times> real \<Rightarrow> real \<Rightarrow> real" where
  "polyval coeffs x = fst coeffs * x + snd coeffs"



subsection \<open>The fit of the collected values\<close>

text \<open>
  \<^verbatim>\<open>np.polyfit(x_numeric, gpas, 1)\<close> on what was collected. On ordinary values, numbers
  below \<open>2^63\<close> in magnitude, numpy returns the least-squares line and raises nothing.
  What it does with the others (a NaN, an infinity, an \<^verbatim>\<open>int\<close> beyond the machine
  integers: coefficients that are not numbers, or an exception) is numpy's, and is the
  argument \<open>other\<close>.
\<close>

fun ordinary :: "pyfloat \<Rightarrow> real option" where
  "ordinary (Fin r) = (if \<bar>r\<bar> < 2 ^ 63 then Some r else None)"
| "ordinary v = None"

fun ordinary_values :: "pyfloat list \<Rightarrow> real list option" where
  "ordinary_values [] = Some []"
| "ordinary_values (g # gs) =
     (case ordinary g of
        None \<Rightarrow> None
      | Some r \<Rightarrow> (case ordinary_values gs of None \<Rightarrow> None | Some rs \<Rightarrow> Some (r # rs)))"

definition np_polyfit ::
  "(pyfloat list \<Rightarrow> py_error + pyfloat \<times> pyfloat) \<Rightarrow> pyfloat list
     \<Rightarrow> py_error + pyfloat \<times> pyfloat" where
  "np_polyfit other gpas =
     (case ordinary_values gpas of
        Some ys \<Rightarrow>
          (case polyfit (arange (length ys)) ys of (slope, intercept) \<Rightarrow> Inr (Fin slope, Fin intercept))
      | None \<Rightarrow> other gpas)"

text \<open>
  \<^verbatim>\<open>np.polyval(coeffs, x)\<close> at a position \<open>x\<close>, with the arithmetic of NaN and the
  infinities.
\<close>

fun fmul :: "pyfloat \<Rightarrow> real \<Rightarrow> pyfloat" where
  "fmul (Fin a) x = Fin (a * x)"
| "fmul (Infinite s) x = (if x = 0 then NaNf else Infinite (s = (0 < x)))"
| "fmul NaNf x = NaNf"

fun fadd :: "pyfloat \<Rightarrow> pyfloat \<Rightarrow> pyfloat" where
  "fadd (Fin a) (Fin b) = Fin (a + b)"
| "fadd (Fin a) (Infinite t) = Infinite t"
| "fadd (Infinite s) (Fin b) = Infinite s"
| "fadd (Infinite s) (Infinite t) = (if s = t then Infinite s else NaNf)"
| "fadd a b = NaNf"

definition np_polyval :: "pyfloat \<times> pyfloat \<Rightarrow> real \<Rightarrow> pyfloat" where
  "np_polyval coeffs x = fadd (fmul (fst coeffs) x) (snd coeffs)"

text \<open>
  \<^verbatim>\<open>min(c, x)\<close> and \<^verbatim>\<open>max(c, y)\<close> on such a value: the first argument stays unless the
  second is smaller, respectively larger, and a comparison with NaN is false.
\<close>

fun fmin :: "real \<Rightarrow> pyfloat \<Rightarrow> pyfloat" where
  "fmin c (Fin r) = (if r < c then Fin r else Fin c)"
| "fmin c (Infinite s) = (if s then Fin c else Infinite False)"
| "fmin c NaNf = Fin c"

fun fmax :: "real \<Rightarrow> pyfloat \<Rightarrow> pyfloat" where
  "fmax c (Fin r) = (if r > c then Fin r else Fin c)"
| "fmax c (Infinite s) = (if s then Infinite True else Fin c)"
| "fmax c NaNf = Fin c"

subsection \<open>The projection and the chart\<close>

text \<open>
  \<^verbatim>\<open>
  if len(gpas) >= 2:
      try:
          x_numeric = np.arange(len(gpas))
          coeffs = np.polyfit(x_numeric, gpas, 1)
          trend_line = np.polyval(coeffs, x_numeric)
          next_semester = f'<prefix>{len(gpas)+1}<suffix>'
          next_gpa = np.polyval(coeffs, len(gpas))
          next_gpa = max(0, min(4, next_gpa))
          all_semesters = semesters + [next_semester]
          all_trend = list(trend_line) + [next_gpa]
          <trace (all_semesters, all_trend)>; <trace ([next_semester], [next_gpa])>
      except Exception as e:
          st.write(...)
  \<close>
  When the fit raises, nothing has been added yet and the \<^verbatim>\<open>except\<close> branch only
  writes a message.
\<close>

definition trend_block ::
  "(pyfloat list \<Rightarrow> py_error + pyfloat \<times> pyfloat) \<Rightarrow> chart_state \<Rightarrow> chart_state" where
  "trend_block other st =
     (if length (var_gpas st) \<ge> 2 then
        (case np_polyfit other (var_gpas st) of
           Inl e \<Rightarrow> st
         | Inr coeffs \<Rightarrow>
             (let x_numeric = arange (length (var_gpas st));
                  trend_line = map (np_polyval coeffs) x_numeric;
                  next_semester = label_prefix @ str_nat (length (var_gpas st) + 1) @ label_suffix;
                  next_gpa = np_polyval coeffs (real (length (var_gpas st)));
                  next_gpa = fmax 0 (fmin 4 next_gpa);
                  all_semesters = var_semesters st @ [next_semester];
                  all_trend = trend_line @ [next_gpa]
              in st\<lparr>trend_trace := Some (all_semesters, all_trend),
                     predicted_trace := Some (next_semester, next_gpa)\<rparr>))
      else st)"

text \<open>
  \<^verbatim>\<open>create_gpa_chart(student_data, df)\<close>: the state after its last statement. The figure
  it returns is the four traces.
\<close>

definition create_gpa_chart ::
  "(string \<Rightarrow> pyfloat option) \<Rightarrow> (string \<Rightarrow> real option)
     \<Rightarrow> (pyfloat list \<Rightarrow> py_error + pyfloat \<times> pyfloat)
     \<Rightarrow> student_record \<Rightarrow> dataframe option \<Rightarrow> chart_state" where
  "create_gpa_chart fl tn other student_data df =
     trend_block other
       (add_class_trace tn
          (add_personal_trace
             (with_example_data
                (collect_gpas fl (init_state student_data df)))))"

subsection \<open>The call in the academic tab\<close>

text \<open>
  The one call of \<^verbatim>\<open>create_gpa_chart\<close>, in \<^verbatim>\<open>main\<close>:
  \<^verbatim>\<open>
  student_data_copy = selected_student.copy()
  for key in [<the three grade-point fields>]:
      if key in student_data_copy:
          student_data_copy[key] = pd.to_numeric(student_data_copy[key], errors='coerce')
  gpa_chart = create_gpa_chart(student_data_copy, df)
  \<close>
  \<^verbatim>\<open>pd.to_numeric\<close> hands a number or a NaN back as it is, reads a text, and turns
  whatever it cannot read into NaN.
\<close>

fun to_numeric_scalar :: "(string \<Rightarrow> real option) \<Rightarrow> pyval \<Rightarrow> pyval" where
  "to_numeric_scalar tn (PStr s) = (case tn s of Some r \<Rightarrow> PNum r | None \<Rightarrow> FloatNaN)"
| "to_numeric_scalar tn PNone = FloatNaN"
| "to_numeric_scalar tn v = v"

definition gpa_keys :: "string list" where
  "gpa_keys = [sem_first @ gpa_suffix, sem_second @ gpa_suffix, sem_third @ gpa_suffix]"

definition coerce_gpa_fields :: "(string \<Rightarrow> real option) \<Rightarrow> student_record \<Rightarrow> student_record" where
  "coerce_gpa_fields tn student_data =
     (\<lambda>key. if key \<in> set gpa_keys then map_option (to_numeric_scalar tn) (student_data key)
            else student_data key)"

definition academic_tab_chart ::
  "(string \<Rightarrow> pyfloat option) \<Rightarrow> (string \<Rightarrow> real option)
     \<Rightarrow> (pyfloat list \<Rightarrow> py_error + pyfloat \<times> pyfloat)
     \<Rightarrow> student_record \<Rightarrow> dataframe option \<Rightarrow> chart_state" where
  "academic_tab_chart fl tn other selected_student df =
     create_gpa_chart fl tn other (coerce_gpa_fields tn selected_student) df"

text \<open>
  The spec's words for the input series: the present values of a record are the cells
  of its three grade-point fields that are not missing and are numerically convertible.
\<close>

definition present_value :: "(string \<Rightarrow> real option) \<Rightarrow> student_record \<Rightarrow> string \<Rightarrow> bool" where
  "present_value tn student_data key =
     (case student_data key of None \<Rightarrow> False | Some x \<Rightarrow> notna (to_numeric_scalar tn x))"

definition present_values :: "(string \<Rightarrow> real option) \<Rightarrow> student_record \<Rightarrow> string list" where
  "present_values tn student_data = filter (present_value tn student_data) gpa_keys"

subsection \<open>Concrete inputs\<close>

text \<open>
  The record of a student with the grade points 3.2, 3.5 and 3.1; a reading of texts
  as floats that knows \<^verbatim>\<open>'nan'\<close> and \<^verbatim>\<open>'inf'\<close> besides the plain decimals; and what
  numpy returns for values with a NaN among them, coefficients that are NaN.
\<close>

definition example_record :: student_record where
  "example_record =
     [sem_first @ gpa_suffix \<mapsto> PNum (32 / 10),
      sem_second @ gpa_suffix \<mapsto> PNum (35 / 10),
      sem_third @ gpa_suffix \<mapsto> PNum (31 / 10)]"

definition float_text :: "string \<Rightarrow> pyfloat option" where
  "float_text s =
     (if s = ''nan'' then Some NaNf
      else if s = ''inf'' then Some (Infinite True)
      else map_option Fin (plain_decimal s))"

definition nan_coefficients :: "pyfloat list \<Rightarrow> py_error + pyfloat \<times> pyfloat" where
  "nan_coefficients gpas = Inr (NaNf, NaNf)"


definition one_grade_record :: student_record where
  "one_grade_record =
     [sem_first @ gpa_suffix \<mapsto> PStr ''abc'', sem_second @ gpa_suffix \<mapsto> PNum (35 / 10)]"

section \<open>Properties of the normalizer\<close>

lemma bit_length_le: "n < 2 ^ k \<Longrightarrow> bit_length n \<le> k"
proof (induction k arbitrary: n)
  case 0
  then show ?case by (simp add: bit_length.simps)
next
  case (Suc k)
  show ?case
  proof (cases "n = 0")
    case True
    then show ?thesis by (simp add: bit_length.simps)
  next
    case False
    from Suc.prems have "n div 2 < 2 ^ k" by simp
    from Suc.IH [OF this] False show ?thesis
      by (subst bit_length.simps) simp
  qed
qed


lemma int_to_float_exact:
  assumes "\<bar>i\<bar> < 2 ^ 53"
  shows "int_to_float i = real_of_int i"
proof -
  from assms have "nat \<bar>i\<bar> < 2 ^ 53" by (simp add: nat_less_iff)
  then have "bit_length (nat \<bar>i\<bar>) \<le> 53" by (rule bit_length_le)
  then have e: "bit_length (nat \<bar>i\<bar>) - 53 = 0" by simp
  have "int_to_float i = real_of_int (sgn i) * real (nat \<bar>i\<bar>)"
    unfolding int_to_float_def round_half_even_def Let_def e by simp
  also have "\<dots> = real_of_int (sgn i * \<bar>i\<bar>)" by simp
  also have "\<dots> = real_of_int i" by (simp add: mult_sgn_abs)
  finally show ?thesis .
qed











lemma float_limit_large: "2 ^ 34 < float_limit"
  by (simp add: float_limit_def)

lemma to_float_small:
  assumes "\<bar>real_of_int i\<bar> < 2 ^ 34"
  shows "to_float (IntV i) = Inr (Some (real_of_int i))"
proof -
  from assms have "\<bar>i\<bar> < 2 ^ 34"
    by (metis of_int_abs of_int_less_numeral_power_cancel_iff)
  then have "\<bar>i\<bar> < 2 ^ 53" by simp
  then have "int_to_float i = real_of_int i" by (rule int_to_float_exact)
  with assms float_limit_large show ?thesis by simp
qed

lemma to_float_exact_number:
  "\<bar>i\<bar> < 2 ^ 32 \<Longrightarrow> to_float (IntV i) = Inr (Some (real_of_int i))"
proof -
  assume "\<bar>i\<bar> < 2 ^ 32"
  then have "\<bar>real_of_int i\<bar> < 2 ^ 32"
    by (metis of_int_abs of_int_less_numeral_power_cancel_iff)
  then have "\<bar>real_of_int i\<bar> < 2 ^ 34" by simp
  then show ?thesis by (rule to_float_small)
qed

declare to_float.simps(1) [simp del]











text \<open>
  C8. A missing value (\<^verbatim>\<open>None\<close> or any NaN) is normalized to 0 whatever the bounds
  are, of whatever type: the bounds are not looked at.
\<close>

theorem normalize_value_missing:
  "isna v \<Longrightarrow> normalize_value v min_val max_val = Inr 0"
  by (simp add: normalize_value_def)

theorem normalize_value_missing_witness:
  "isna NpNaN \<and> normalize_value NpNaN (PStr ''low'') PNone = Inr 0"
  using normalize_value_missing [of NpNaN "PStr ''low''" PNone] by simp

section \<open>Properties of the help classification\<close>

lemma help_needed_iff:
  "help_needed student_data \<longleftrightarrow>
     student_data key_help \<notin> {None, Some PNone, Some (PStr wu), Some NpNaN}"
  by (cases "student_data key_help"; cases "the (student_data key_help)")
     (auto simp: help_needed_def py_in_def series_get_def)

text \<open>
  C5 at a null value the code takes for a difficulty: a NaN that is not the object
  \<^verbatim>\<open>np.nan\<close> is missing for \<^verbatim>\<open>pd.isna\<close> and for the cohort count, yet the student's card
  says help is needed.
\<close>

theorem help_needed_nan_object:
  "isna FloatNaN
   \<and> display_help_status [key_help \<mapsto> FloatNaN] = HelpNeededCard
   \<and> help_needed_count \<lparr>df_len = 1, df_columns = [(key_help, [FloatNaN])]\<rparr> = Inr 0"
  by (simp add: display_help_status_def help_needed_def py_in_def series_get_def
      help_needed_count_def df_getitem_def notna_def)

text \<open>
  C10. A record whose help field is the empty text is classified as needing help.
\<close>

theorem help_needed_empty_text:
  "display_help_status (student_data(key_help \<mapsto> PStr [])) = HelpNeededCard"
  by (simp add: display_help_status_def help_needed_def py_in_def series_get_def wu_def)

section \<open>Properties of the cohort statistics\<close>

text \<open>
  C6 at a sheet that has the name and number columns only: the statistics of the
  overview tab raise \<^verbatim>\<open>KeyError\<close> at the absent help column.
\<close>

theorem overview_statistics_absent_column:
  "overview_statistics
     \<lparr>df_len = 1, df_columns = [(key_name, [PStr ''S001'']), (key_id, [PNum 1])]\<rparr>
   = Inl KeyError"
  by (simp add: overview_statistics_def help_needed_count_def df_getitem_def
      key_name_def key_id_def key_help_def)

section \<open>Properties of the cohort mean\<close>

lemma nansum_count_to_numeric:
  "nansum_count (map (to_numeric tn) col) =
     (sum_list (remaining_values tn col), length (remaining_values tn col))"
proof (induction col)
  case Nil
  then show ?case by (simp add: remaining_values_def List.map_filter_simps)
next
  case (Cons v col)
  then show ?case
    by (cases v) (simp_all add: remaining_values_def List.map_filter_simps split: option.split)
qed

text \<open>
  C4, as stated, fails: over a column that is entirely non-numeric the mean is NaN,
  not 0; the class average is 0 for the columns the cohort does not have.
\<close>

theorem class_avg_all_non_numeric:
  "class_avg plain_decimal \<lparr>df_len = 2, df_columns = [(key_deyu, [PStr ''abc'', PNone])]\<rparr>
     = [FloatNaN, PNum 0, PNum 0, PNum 0, PNum 0]"
  by (simp add: class_avg_def numeric_mean_def series_mean_def
      plain_decimal_def unsigned_decimal_def digit_of_def
      key_deyu_def key_zhiyu_def key_tice_def key_fujia_def key_fujia_2324_def key_total_def)

lemma normalized_class_avg_all_non_numeric:
  "normalized_class_avg plain_decimal \<lparr>df_len = 2, df_columns = [(key_deyu, [PStr ''abc'', PNone])]\<rparr>
     = [Inr 0, Inr 0, Inr 0, Inr (100 / 7), Inr 0]"
  by (simp add: normalized_class_avg_def metric_bounds_def class_avg_all_non_numeric
      normalize_value_def py_sub_def py_truediv_def py_mul_def py_max_def py_min_def
      float_pair_def to_float_exact_number)

text \<open>
  C4, amended. The mean of a field the cohort has is the arithmetic mean of the entries
  that remain after coercion to numbers, and NaN when none remains; the caller's
  default (0 in the radar chart, 3.0 in the trend chart) is the result only for a
  field the cohort does not have.
\<close>

theorem numeric_mean_of_remaining:
  "numeric_mean tn df key dflt =
     (case map_of (df_columns df) key of
        None \<Rightarrow> dflt
      | Some col \<Rightarrow>
          if remaining_values tn col = [] then FloatNaN
          else PNum (arithmetic_mean (remaining_values tn col)))"
  by (simp add: numeric_mean_def series_mean_def nansum_count_to_numeric arithmetic_mean_def
      split: option.split)

section \<open>The fit is the least-squares line\<close>








lemma arange_length [simp]: "length (arange n) = n"
  by (simp add: arange_def)







section \<open>Properties of the trend chart\<close>

lemma collect_step_frame:
  "arg_student_data (collect_step fl st sem_num) = arg_student_data st
   \<and> arg_df (collect_step fl st sem_num) = arg_df st
   \<and> personal_trace (collect_step fl st sem_num) = personal_trace st
   \<and> class_trace (collect_step fl st sem_num) = class_trace st
   \<and> trend_trace (collect_step fl st sem_num) = trend_trace st
   \<and> predicted_trace (collect_step fl st sem_num) = predicted_trace st"
  by (simp add: collect_step_def split: option.split)

lemma collect_step_length:
  assumes "length (var_gpas st) \<le> length (var_semesters st)"
  shows "length (var_gpas (collect_step fl st sem_num))
       \<le> length (var_semesters (collect_step fl st sem_num))"
  using assms by (simp add: collect_step_def split: option.split)

lemma collect_gpas_frame:
  "arg_student_data (collect_gpas fl st) = arg_student_data st
   \<and> arg_df (collect_gpas fl st) = arg_df st
   \<and> personal_trace (collect_gpas fl st) = personal_trace st
   \<and> class_trace (collect_gpas fl st) = class_trace st
   \<and> trend_trace (collect_gpas fl st) = trend_trace st
   \<and> predicted_trace (collect_gpas fl st) = predicted_trace st"
  by (simp add: collect_gpas_def collect_step_frame)

lemma collect_gpas_length:
  assumes "length (var_gpas st) \<le> length (var_semesters st)"
  shows "length (var_gpas (collect_gpas fl st)) \<le> length (var_semesters (collect_gpas fl st))"
  using assms by (simp add: collect_gpas_def collect_step_length)

lemma ordinary_values_map_Fin:
  "ordinary_values gpas = Some ys \<Longrightarrow> gpas = map Fin ys"
proof (induction gpas arbitrary: ys)
  case Nil
  then show ?case by simp
next
  case (Cons g gs)
  then show ?case
    by (cases g) (auto split: option.splits if_splits)
qed

lemma ordinary_values_bounded:
  "list_all (\<lambda>y. \<bar>y\<bar> < 2 ^ 63) ys \<Longrightarrow> ordinary_values (map Fin ys) = Some ys"
  by (induction ys) simp_all

lemma np_polyfit_ordinary:
  assumes "list_all (\<lambda>y. \<bar>y\<bar> < 2 ^ 63) ys"
  shows "np_polyfit other (map Fin ys) =
           Inr (Fin (fst (polyfit (arange (length ys)) ys)), Fin (snd (polyfit (arange (length ys)) ys)))"
  by (simp add: np_polyfit_def ordinary_values_bounded [OF assms] split: prod.split)

lemma np_polyval_Fin: "np_polyval (Fin a, Fin b) x = Fin (polyval (a, b) x)"
  by (simp add: np_polyval_def polyval_def)

lemma clamp_Fin: "fmax 0 (fmin 4 (Fin x)) = Fin (max 0 (min 4 x))"
  by (simp add: max_def min_def)

lemma trend_block_fit:
  assumes "2 \<le> length (var_gpas st)" and "np_polyfit other (var_gpas st) = Inr coeffs"
  shows "trend_block other st =
     st\<lparr>trend_trace :=
          Some (var_semesters st @ [label_prefix @ str_nat (length (var_gpas st) + 1) @ label_suffix],
                map (np_polyval coeffs) (arange (length (var_gpas st)))
                  @ [fmax 0 (fmin 4 (np_polyval coeffs (real (length (var_gpas st)))))]),
        predicted_trace :=
          Some (label_prefix @ str_nat (length (var_gpas st) + 1) @ label_suffix,
                fmax 0 (fmin 4 (np_polyval coeffs (real (length (var_gpas st))))))\<rparr>"
  using assms by (simp add: trend_block_def Let_def)

lemma trend_block_raises:
  assumes "np_polyfit other (var_gpas st) = Inl e"
  shows "trend_block other st = st"
  using assms by (simp add: trend_block_def)

lemma trend_block_few:
  assumes "length (var_gpas st) < 2"
  shows "trend_block other st = st"
  using assms by (simp add: trend_block_def)

lemma trend_block_frame:
  "arg_student_data (trend_block other st) = arg_student_data st
   \<and> arg_df (trend_block other st) = arg_df st
   \<and> var_semesters (trend_block other st) = var_semesters st
   \<and> var_gpas (trend_block other st) = var_gpas st
   \<and> personal_trace (trend_block other st) = personal_trace st
   \<and> class_trace (trend_block other st) = class_trace st"
  by (simp add: trend_block_def Let_def split: sum.split)

lemma add_class_trace_frame:
  "arg_student_data (add_class_trace tn st) = arg_student_data st
   \<and> arg_df (add_class_trace tn st) = arg_df st
   \<and> var_semesters (add_class_trace tn st) = var_semesters st
   \<and> var_gpas (add_class_trace tn st) = var_gpas st
   \<and> personal_trace (add_class_trace tn st) = personal_trace st
   \<and> trend_trace (add_class_trace tn st) = trend_trace st
   \<and> predicted_trace (add_class_trace tn st) = predicted_trace st"
  by (simp add: add_class_trace_def split: option.split)


lemma init_state_lengths:
  "length (var_gpas (init_state student_data df)) \<le> length (var_semesters (init_state student_data df))"
  by (simp add: init_state_def)

lemma create_gpa_chart_enough:
  assumes "2 \<le> length (var_gpas (collect_gpas fl (init_state student_data df)))"
  shows "create_gpa_chart fl tn other student_data df =
     trend_block other (add_class_trace tn (add_personal_trace
       (collect_gpas fl (init_state student_data df))))"
proof -
  from collect_gpas_length [OF init_state_lengths, of fl student_data df] assms
  have "2 \<le> length (var_semesters (collect_gpas fl (init_state student_data df)))"
    by simp
  then have "with_example_data (collect_gpas fl (init_state student_data df))
      = collect_gpas fl (init_state student_data df)"
    by (auto simp: with_example_data_def)
  then show ?thesis by (simp add: create_gpa_chart_def)
qed

lemma create_gpa_chart_frame:
  "arg_student_data (create_gpa_chart fl tn other student_data df) = student_data
   \<and> arg_df (create_gpa_chart fl tn other student_data df) = df"
  by (simp add: create_gpa_chart_def trend_block_frame add_class_trace_frame
      add_personal_trace_def with_example_data_def collect_gpas_frame init_state_def)

lemma chart_of_ordinary:
  assumes "var_semesters (collect_gpas fl (init_state student_data df)) = semesters"
    and "var_gpas (collect_gpas fl (init_state student_data df)) = map Fin ys"
    and "list_all (\<lambda>y. \<bar>y\<bar> < 2 ^ 63) ys"
    and "2 \<le> length ys"
  shows "predicted_trace (create_gpa_chart fl tn other student_data df) =
           Some (label_prefix @ str_nat (length ys + 1) @ label_suffix,
                 Fin (max 0 (min 4 (polyval (polyfit (arange (length ys)) ys) (real (length ys))))))"
    and "trend_trace (create_gpa_chart fl tn other student_data df) =
           Some (semesters @ [label_prefix @ str_nat (length ys + 1) @ label_suffix],
                 map (\<lambda>x. Fin (polyval (polyfit (arange (length ys)) ys) x)) (arange (length ys))
                   @ [Fin (max 0 (min 4 (polyval (polyfit (arange (length ys)) ys) (real (length ys)))))])"
proof -
  let ?c = "collect_gpas fl (init_state student_data df)"
  let ?p = "add_class_trace tn (add_personal_trace ?c)"
  from assms have enough: "2 \<le> length (var_gpas ?c)" by simp
  have chart: "create_gpa_chart fl tn other student_data df = trend_block other ?p"
    by (rule create_gpa_chart_enough [OF enough])
  have p: "var_semesters ?p = semesters" "var_gpas ?p = map Fin ys"
    using assms(1,2) by (simp_all add: add_class_trace_frame add_personal_trace_def)
  have fit: "np_polyfit other (var_gpas ?p) =
      Inr (Fin (fst (polyfit (arange (length ys)) ys)), Fin (snd (polyfit (arange (length ys)) ys)))"
    by (simp add: p np_polyfit_ordinary [OF assms(3)])
  from assms(4) have len: "2 \<le> length (var_gpas ?p)" by (simp add: p)
  show "predicted_trace (create_gpa_chart fl tn other student_data df) =
           Some (label_prefix @ str_nat (length ys + 1) @ label_suffix,
                 Fin (max 0 (min 4 (polyval (polyfit (arange (length ys)) ys) (real (length ys))))))"
    by (simp add: chart trend_block_fit [OF len fit] p np_polyval_Fin clamp_Fin)
  show "trend_trace (create_gpa_chart fl tn other student_data df) =
           Some (semesters @ [label_prefix @ str_nat (length ys + 1) @ label_suffix],
                 map (\<lambda>x. Fin (polyval (polyfit (arange (length ys)) ys) x)) (arange (length ys))
                   @ [Fin (max 0 (min 4 (polyval (polyfit (arange (length ys)) ys) (real (length ys)))))])"
    by (simp add: chart trend_block_fit [OF len fit] p np_polyval_Fin clamp_Fin)
qed

lemma collect_example_record:
  "var_semesters (collect_gpas fl (init_state example_record df)) = [sem_first, sem_second, sem_third]"
  "var_gpas (collect_gpas fl (init_state example_record df)) = map Fin [16 / 5, 7 / 2, 31 / 10]"
  by (simp_all add: collect_gpas_def collect_step_def init_state_def example_record_def notna_def
      sem_first_def sem_second_def sem_third_def gpa_suffix_def)

lemma arange_3: "arange 3 = [0, 1, 2]" "arange (Suc (Suc (Suc 0))) = [0, 1, 2]"
  by (simp_all add: arange_def eval_nat_numeral)

lemma polyfit_example:
  "polyfit [0, 1, 2] [16 / 5, 7 / 2, 31 / 10] = (- (1 / 20), 199 / 60)"
  by (simp add: polyfit_def Let_def)

lemma example_chart:
  "predicted_trace (create_gpa_chart fl tn other example_record None) =
     Some (label_prefix @ ''4'' @ label_suffix, Fin (19 / 6))"
  "trend_trace (create_gpa_chart fl tn other example_record None) =
     Some ([sem_first, sem_second, sem_third, label_prefix @ ''4'' @ label_suffix],
           [Fin (199 / 60), Fin (49 / 15), Fin (193 / 60), Fin (19 / 6)])"
proof -
  have b: "list_all (\<lambda>y. \<bar>y\<bar> < 2 ^ 63) [16 / 5, 7 / 2, 31 / 10 :: real]" by simp
  have l: "2 \<le> length [16 / 5, 7 / 2, 31 / 10 :: real]" by simp
  note c = chart_of_ordinary [OF collect_example_record b l, of fl tn other None]
  show "predicted_trace (create_gpa_chart fl tn other example_record None) =
     Some (label_prefix @ ''4'' @ label_suffix, Fin (19 / 6))"
    using c(1) by (simp add: arange_3 polyfit_example polyval_def str_nat.simps)
  show "trend_trace (create_gpa_chart fl tn other example_record None) =
     Some ([sem_first, sem_second, sem_third, label_prefix @ ''4'' @ label_suffix],
           [Fin (199 / 60), Fin (49 / 15), Fin (193 / 60), Fin (19 / 6)])"
    using c(2) by (simp add: arange_3 polyfit_example polyval_def str_nat.simps)
qed


lemma chart_personal_trace:
  assumes "2 \<le> length (var_gpas (collect_gpas fl (init_state student_data df)))"
  shows "personal_trace (create_gpa_chart fl tn other student_data df) =
           Some (var_semesters (collect_gpas fl (init_state student_data df)),
                 var_gpas (collect_gpas fl (init_state student_data df)))"
  by (simp add: create_gpa_chart_enough [OF assms] trend_block_frame add_class_trace_frame
      add_personal_trace_def)

lemma example_personal_trace:
  "personal_trace (create_gpa_chart fl tn other example_record None) =
     Some ([sem_first, sem_second, sem_third], [Fin (16 / 5), Fin (7 / 2), Fin (31 / 10)])"
proof -
  have "2 \<le> length (var_gpas (collect_gpas fl (init_state example_record None)))"
    by (simp add: collect_example_record)
  from chart_personal_trace [OF this, of tn other] show ?thesis
    by (simp add: collect_example_record)
qed

text \<open>
  C9, as stated, fails at the grade points 3.2, 3.5, 3.1: the series the projection
  produces holds the fitted line, not the original values, before the projected point.
\<close>

theorem trend_trace_is_fitted_line:
  "map_option snd (trend_trace
      (create_gpa_chart float_text plain_decimal nan_coefficients example_record None))
     = Some [Fin (199 / 60), Fin (49 / 15), Fin (193 / 60), Fin (19 / 6)]
   \<and> map_option snd (personal_trace
      (create_gpa_chart float_text plain_decimal nan_coefficients example_record None))
     = Some [Fin (32 / 10), Fin (35 / 10), Fin (31 / 10)]
   \<and> map_option snd (trend_trace
      (create_gpa_chart float_text plain_decimal nan_coefficients example_record None))
     \<noteq> Some ([Fin (32 / 10), Fin (35 / 10), Fin (31 / 10)] @ [Fin (19 / 6)])"
  by (simp add: example_chart example_personal_trace)

text \<open>
  C9, amended. With two or more collected grade points, the call leaves its two
  arguments and the two collected lists as they were, the student's own trace is the
  collected series, and, unless the fit raises, the trend trace has the collected
  labels followed by exactly one projected label, and the fitted line at the positions
  \<open>0..n-1\<close> followed by exactly one projected value, the predicted point. When the
  fit raises, neither trace is added.
\<close>

theorem trend_projection_appends_one_point:
  assumes "var_semesters (collect_gpas fl (init_state student_data df)) = semesters"
    and "var_gpas (collect_gpas fl (init_state student_data df)) = gpas"
    and "2 \<le> length gpas"
  shows "arg_student_data (create_gpa_chart fl tn other student_data df) = student_data
       \<and> arg_df (create_gpa_chart fl tn other student_data df) = df
       \<and> var_semesters (create_gpa_chart fl tn other student_data df) = semesters
       \<and> var_gpas (create_gpa_chart fl tn other student_data df) = gpas
       \<and> personal_trace (create_gpa_chart fl tn other student_data df) = Some (semesters, gpas)
       \<and> (case np_polyfit other gpas of
             Inl e \<Rightarrow>
               trend_trace (create_gpa_chart fl tn other student_data df) = None
             \<and> predicted_trace (create_gpa_chart fl tn other student_data df) = None
           | Inr coeffs \<Rightarrow>
               (\<exists>label v.
                  predicted_trace (create_gpa_chart fl tn other student_data df) = Some (label, v)
                \<and> trend_trace (create_gpa_chart fl tn other student_data df) =
                    Some (semesters @ [label],
                          map (np_polyval coeffs) (arange (length gpas)) @ [v])))"
proof -
  let ?c = "collect_gpas fl (init_state student_data df)"
  let ?p = "add_class_trace tn (add_personal_trace ?c)"
  from assms have enough: "2 \<le> length (var_gpas ?c)" by simp
  have chart: "create_gpa_chart fl tn other student_data df = trend_block other ?p"
    by (rule create_gpa_chart_enough [OF enough])
  have p: "var_semesters ?p = semesters" "var_gpas ?p = gpas"
    "personal_trace ?p = Some (semesters, gpas)"
    "trend_trace ?p = None" "predicted_trace ?p = None"
    using assms(1,2)
    by (simp_all add: add_class_trace_frame add_personal_trace_def collect_gpas_frame init_state_def)
  have frame: "arg_student_data (create_gpa_chart fl tn other student_data df) = student_data"
    "arg_df (create_gpa_chart fl tn other student_data df) = df"
    using create_gpa_chart_frame by simp_all
  have vars: "var_semesters (create_gpa_chart fl tn other student_data df) = semesters"
    "var_gpas (create_gpa_chart fl tn other student_data df) = gpas"
    "personal_trace (create_gpa_chart fl tn other student_data df) = Some (semesters, gpas)"
    by (simp_all add: chart trend_block_frame p)
  have traces: "case np_polyfit other gpas of
             Inl e \<Rightarrow>
               trend_trace (create_gpa_chart fl tn other student_data df) = None
             \<and> predicted_trace (create_gpa_chart fl tn other student_data df) = None
           | Inr coeffs \<Rightarrow>
               (\<exists>label v.
                  predicted_trace (create_gpa_chart fl tn other student_data df) = Some (label, v)
                \<and> trend_trace (create_gpa_chart fl tn other student_data df) =
                    Some (semesters @ [label],
                          map (np_polyval coeffs) (arange (length gpas)) @ [v]))"
  proof (cases "np_polyfit other gpas")
    case (Inl e)
    then have "trend_block other ?p = ?p"
      by (intro trend_block_raises [of _ _ e]) (simp add: p)
    with Inl show ?thesis by (simp add: chart p)
  next
    case (Inr coeffs)
    from assms(3) have "2 \<le> length (var_gpas ?p)" by (simp add: p)
    moreover from Inr have "np_polyfit other (var_gpas ?p) = Inr coeffs" by (simp add: p)
    ultimately show ?thesis
      using Inr by (simp add: chart trend_block_fit p)
  qed
  from frame vars traces show ?thesis by simp
qed


theorem trend_projection_appends_one_point_witness:
  "var_semesters (collect_gpas float_text (init_state example_record None)) =
     [sem_first, sem_second, sem_third]
   \<and> var_gpas (collect_gpas float_text (init_state example_record None)) =
     map Fin [16 / 5, 7 / 2, 31 / 10]
   \<and> 2 \<le> length (map Fin [16 / 5, 7 / 2, 31 / 10 :: real])
   \<and> arg_student_data
       (create_gpa_chart float_text plain_decimal nan_coefficients example_record None)
     = example_record
   \<and> var_gpas (create_gpa_chart float_text plain_decimal nan_coefficients example_record None)
     = map Fin [16 / 5, 7 / 2, 31 / 10]"
proof -
  have l: "2 \<le> length (map Fin [16 / 5, 7 / 2, 31 / 10 :: real])" by simp
  from trend_projection_appends_one_point
    [OF collect_example_record(1) collect_example_record(2) l,
      of float_text plain_decimal nan_coefficients None]
    collect_example_record [of float_text None] l
  show ?thesis by blast
qed




lemma gpa_key_member:
  "sem_first @ gpa_suffix \<in> set gpa_keys"
  "sem_second @ gpa_suffix \<in> set gpa_keys"
  "sem_third @ gpa_suffix \<in> set gpa_keys"
  by (simp_all add: gpa_keys_def)

lemma collect_step_coerced:
  assumes "arg_student_data st = coerce_gpa_fields tn student_data"
    and "sem_num @ gpa_suffix \<in> set gpa_keys"
  shows "arg_student_data (collect_step fl st sem_num) = coerce_gpa_fields tn student_data
       \<and> length (var_semesters (collect_step fl st sem_num)) =
           length (var_semesters st)
             + (if present_value tn student_data (sem_num @ gpa_suffix) then 1 else 0)"
proof (cases "student_data (sem_num @ gpa_suffix)")
  case None
  with assms show ?thesis
    by (simp add: collect_step_def coerce_gpa_fields_def present_value_def)
next
  case (Some x)
  with assms show ?thesis
    by (cases x)
       (simp_all add: collect_step_def coerce_gpa_fields_def present_value_def notna_def
          split: option.split)
qed

lemma collect_coerced_length:
  "length (var_semesters (collect_gpas fl (init_state (coerce_gpa_fields tn student_data) df)))
     = length (present_values tn student_data)"
proof -
  let ?s0 = "init_state (coerce_gpa_fields tn student_data) df"
  let ?s1 = "collect_step fl ?s0 sem_first"
  let ?s2 = "collect_step fl ?s1 sem_second"
  let ?s3 = "collect_step fl ?s2 sem_third"
  have a0: "arg_student_data ?s0 = coerce_gpa_fields tn student_data"
    by (simp add: init_state_def)
  note r1 = collect_step_coerced [OF a0 gpa_key_member(1), of fl]
  note r2 = collect_step_coerced [OF conjunct1 [OF r1] gpa_key_member(2), of fl]
  note r3 = collect_step_coerced [OF conjunct1 [OF r2] gpa_key_member(3), of fl]
  have "length (var_semesters ?s3) =
      (if present_value tn student_data (sem_first @ gpa_suffix) then 1 else 0)
    + (if present_value tn student_data (sem_second @ gpa_suffix) then 1 else 0)
    + (if present_value tn student_data (sem_third @ gpa_suffix) then 1 else 0)"
    using r1 r2 r3 by (simp add: init_state_def)
  moreover have "collect_gpas fl ?s0 = ?s3"
    by (simp add: collect_gpas_def)
  ultimately show ?thesis
    by (simp add: present_values_def gpa_keys_def)
qed

text \<open>
  C3. In the academic tab, a record with fewer than two present grade points (cells
  of the three fields that are not missing and are numerically convertible) is charted
  with the example series 3.2, 3.5, 3.1 over the three semesters in place of its own.
\<close>

theorem example_series_when_few_present:
  assumes "length (present_values tn selected_student) < 2"
  shows "personal_trace (academic_tab_chart fl tn other selected_student df) =
           Some ([sem_first, sem_second, sem_third], [Fin (32 / 10), Fin (35 / 10), Fin (31 / 10)])
       \<and> var_semesters (academic_tab_chart fl tn other selected_student df) =
           [sem_first, sem_second, sem_third]
       \<and> var_gpas (academic_tab_chart fl tn other selected_student df) =
           [Fin (32 / 10), Fin (35 / 10), Fin (31 / 10)]"
proof -
  let ?c = "collect_gpas fl (init_state (coerce_gpa_fields tn selected_student) df)"
  from assms have "length (var_semesters ?c) < 2"
    by (simp add: collect_coerced_length)
  then have "with_example_data ?c =
      ?c\<lparr>var_semesters := [sem_first, sem_second, sem_third], var_gpas := example_gpas\<rparr>"
    by (simp add: with_example_data_def)
  then show ?thesis
    by (simp add: academic_tab_chart_def create_gpa_chart_def trend_block_frame
        add_class_trace_frame add_personal_trace_def example_gpas_def)
qed

theorem example_series_when_few_present_witness:
  "length (present_values plain_decimal one_grade_record) < 2
   \<and> personal_trace
       (academic_tab_chart float_text plain_decimal nan_coefficients one_grade_record None) =
         Some ([sem_first, sem_second, sem_third], [Fin (32 / 10), Fin (35 / 10), Fin (31 / 10)])"
proof -
  have h: "length (present_values plain_decimal one_grade_record) < 2"
    by (simp add: present_values_def present_value_def gpa_keys_def one_grade_record_def
        notna_def plain_decimal_def unsigned_decimal_def digit_of_def
        sem_first_def sem_second_def sem_third_def gpa_suffix_def)
  from example_series_when_few_present [OF h, of float_text nan_coefficients None] h
  show ?thesis by blast
qed


end
